theory Spec2Isabelle
  imports Main
begin

section \<open>Python values\<close>

text \<open>
  The telemetry pipeline of \<^verbatim>\<open>rl_framework/monitor/loglib/influxdb_handler.py\<close> handles
  log records whose message is an arbitrary Python object. The values the code tells apart
  are:
  \<^item> \<open>None\<close>, booleans, integers (unbounded), floats and strings;
  \<^item> lists, tuples and dicts (a dict is an association list in insertion order, its keys
    pairwise different);
  \<^item> a numpy scalar (\<open>np.generic\<close>), carried as the Python scalar its \<open>item()\<close> returns;
  \<^item> a numpy array, carried as its shape and its elements in row-major order, each element
    as the Python scalar that \<open>tolist()\<close> gives for it;
  \<^item> any other object (bytes, sets, instances of user classes), carried as the text that
    \<open>str()\<close> gives for it.

  No arithmetic is done on floats anywhere in the file: they are printed, parsed and compared.
  A float is therefore represented by the decimal number that its \<open>repr\<close> shows,
  \<open>PFloat m e\<close> standing for \<open>m * 10^e\<close> with \<open>m\<close> not divisible by ten (and
  \<open>PFloat 0 0\<close> for zero). This is exact for the floats with at most fifteen significant
  digits; infinities, NaN and the sign of zero are not represented.
\<close>

datatype pyval =
    PNone
  | PBool bool
  | PInt int
  | PFloat int int
  | PStr string
  | PList "pyval list"
  | PTuple "pyval list"
  | PDict "(pyval \<times> pyval) list"
  | NpGeneric pyval
  | NdArray "nat list" "pyval list"
  | PObj string

text \<open>The exceptions that the modelled code and library calls raise.\<close>

datatype exn =
    MalformedLiteral  \<comment> \<open>\<open>ValueError\<close> or \<open>SyntaxError\<close> of \<open>ast.literal_eval\<close>\<close>
  | TypeError
  | AttributeError
  | ValueError
  | Full  \<comment> \<open>\<open>queue.Full\<close>\<close>
  | SinkError string  \<comment> \<open>whatever \<open>write_points\<close> raises, with its message\<close>

subsection \<open>Dictionaries\<close>

fun dict_get :: "('k \<times> 'v) list \<Rightarrow> 'k \<Rightarrow> 'v option" where
  "dict_get [] k = None"
| "dict_get ((k', v) # kvs) k = (if k' = k then Some v else dict_get kvs k)"

text \<open>\<open>d[k] = v\<close>: an existing key keeps its position, a new key goes last.\<close>

fun dict_set :: "('k \<times> 'v) list \<Rightarrow> 'k \<Rightarrow> 'v \<Rightarrow> ('k \<times> 'v) list" where
  "dict_set [] k v = [(k, v)]"
| "dict_set ((k', v') # kvs) k v =
     (if k' = k then (k', v) # kvs else (k', v') # dict_set kvs k v)"

definition dict_keys :: "('k \<times> 'v) list \<Rightarrow> 'k list" where
  "dict_keys kvs = map fst kvs"

definition dict_del :: "('k \<times> 'v) list \<Rightarrow> 'k \<Rightarrow> ('k \<times> 'v) list" where
  "dict_del kvs k = filter (\<lambda>(k', v). k' \<noteq> k) kvs"

definition is_dict :: "pyval \<Rightarrow> bool" where
  "is_dict v = (case v of PDict kvs \<Rightarrow> True | _ \<Rightarrow> False)"

subsection \<open>Truth value of an object\<close>

text \<open>
  \<open>bool(x)\<close>, as an \<open>if x:\<close> computes it. The truth value of a numpy array with other
  than one element is an error.
\<close>

fun truthy :: "pyval \<Rightarrow> exn + bool" where
  "truthy PNone = Inr False"
| "truthy (PBool b) = Inr b"
| "truthy (PInt i) = Inr (i \<noteq> 0)"
| "truthy (PFloat m e) = Inr (m \<noteq> 0)"
| "truthy (PStr s) = Inr (s \<noteq> [])"
| "truthy (PList xs) = Inr (xs \<noteq> [])"
| "truthy (PTuple xs) = Inr (xs \<noteq> [])"
| "truthy (PDict kvs) = Inr (kvs \<noteq> [])"
| "truthy (NpGeneric v) = truthy v"
| "truthy (NdArray sh xs) = (case xs of [x] \<Rightarrow> truthy x | _ \<Rightarrow> Inl ValueError)"
| "truthy (PObj s) = Inr True"

section \<open>Library functions: \<open>repr\<close>, \<open>str\<close> and \<open>ast.literal_eval\<close>\<close>

text \<open>
  The formatters read a record through \<open>ast.literal_eval(record.getMessage())\<close>, so the
  text of a value and the evaluation of a text are part of what they compute. Both are
  modelled on the literals that occur in telemetry records: \<open>None\<close>, \<open>True\<close>, \<open>False\<close>,
  decimal integers and floats, quoted ASCII strings with the usual escapes, lists, tuples
  and dicts.
\<close>

subsection \<open>Printing\<close>

definition digit_char :: "nat \<Rightarrow> char" where
  "digit_char d = ''0123456789abcdef'' ! d"

function digits :: "nat \<Rightarrow> string" where
  "digits n = (if n < 10 then [digit_char n] else digits (n div 10) @ [digit_char (n mod 10)])"
  by pat_completeness auto
termination
  by (relation "measure id") auto

declare digits.simps [simp del]

definition int_repr :: "int \<Rightarrow> string" where
  "int_repr i = (if i < 0 then CHR ''-'' # digits (nat (- i)) else digits (nat i))"

definition pad2 :: "string \<Rightarrow> string" where
  "pad2 ds = (if length ds < 2 then CHR ''0'' # ds else ds)"

text \<open>
  \<open>repr\<close> of a float: with \<open>decpt\<close> the position of the decimal point after the first
  digit group, the exponent form is used when \<open>decpt \<le> -4\<close> or \<open>decpt > 16\<close>, the
  positional form otherwise, always with a fractional part.
\<close>

definition float_repr :: "int \<Rightarrow> int \<Rightarrow> string" where
  "float_repr m e =
     (if m = 0 then ''0.0''
      else
        let ds = digits (nat \<bar>m\<bar>);
            n = int (length ds);
            decpt = n + e;
            body =
              (if decpt \<le> - 4 \<or> 16 < decpt then
                 hd ds # (if 1 < n then CHR ''.'' # tl ds else []) @ ''e''
                   @ (if decpt - 1 < 0 then ''-'' else ''+'')
                   @ pad2 (digits (nat \<bar>decpt - 1\<bar>))
               else if decpt \<le> 0 then ''0.'' @ replicate (nat (- decpt)) CHR ''0'' @ ds
               else if n \<le> decpt then ds @ replicate (nat (decpt - n)) CHR ''0'' @ ''.0''
               else take (nat decpt) ds @ CHR ''.'' # drop (nat decpt) ds)
        in (if m < 0 then CHR ''-'' # body else body))"

text \<open>
  \<open>repr\<close> of a string: single quotes, unless the string has a single quote and no double
  quote; the backslash, the chosen quote and the control characters are escaped.
\<close>

definition escape_char :: "char \<Rightarrow> char \<Rightarrow> string" where
  "escape_char q c =
     (if c = CHR 0x5C then [CHR 0x5C, CHR 0x5C]
      else if c = q then [CHR 0x5C, q]
      else if c = CHR 0x0A then [CHR 0x5C, CHR ''n'']
      else if c = CHR 0x0D then [CHR 0x5C, CHR ''r'']
      else if c = CHR 0x09 then [CHR 0x5C, CHR ''t'']
      else if (of_char c :: nat) < 32 \<or> c = CHR 0x7F then
        [CHR 0x5C, CHR ''x'', digit_char (of_char c div 16), digit_char (of_char c mod 16)]
      else [c])"

definition str_repr :: "string \<Rightarrow> string" where
  "str_repr s =
     (let q = (if CHR 0x27 \<in> set s \<and> CHR 0x22 \<notin> set s then CHR 0x22 else CHR 0x27)
      in q # concat (map (escape_char q) s) @ [q])"

fun join :: "string \<Rightarrow> string list \<Rightarrow> string" where
  "join sep [] = []"
| "join sep [x] = x"
| "join sep (x # y # ys) = x @ sep @ join sep (y # ys)"

text \<open>
  A numpy scalar prints as the number it holds (numpy 1.x). The text of an array is not a
  Python literal; it is modelled as \<open>array(...)\<close> around its elements.
\<close>

fun py_repr :: "pyval \<Rightarrow> string" where
  "py_repr PNone = ''None''"
| "py_repr (PBool b) = (if b then ''True'' else ''False'')"
| "py_repr (PInt i) = int_repr i"
| "py_repr (PFloat m e) = float_repr m e"
| "py_repr (PStr s) = str_repr s"
| "py_repr (PList xs) = ''['' @ join '', '' (map py_repr xs) @ '']''"
| "py_repr (PTuple xs) =
     (case xs of
        [x] \<Rightarrow> ''('' @ py_repr x @ '',)''
      | _ \<Rightarrow> ''('' @ join '', '' (map py_repr xs) @ '')'')"
| "py_repr (PDict kvs) =
     ''{'' @ join '', '' (map (\<lambda>(k, v). py_repr k @ '': '' @ py_repr v) kvs) @ ''}''"
| "py_repr (NpGeneric v) = py_repr v"
| "py_repr (NdArray sh xs) = ''array('' @ join '', '' (map py_repr xs) @ '')''"
| "py_repr (PObj s) = s"

definition py_str :: "pyval \<Rightarrow> string" where
  "py_str v = (case v of PStr s \<Rightarrow> s | _ \<Rightarrow> py_repr v)"

subsection \<open>Evaluating a literal\<close>

definition is_blank :: "char \<Rightarrow> bool" where
  "is_blank c = (c \<in> set [CHR '' '', CHR 0x09, CHR 0x0A, CHR 0x0C, CHR 0x0D])"

definition is_digit :: "char \<Rightarrow> bool" where
  "is_digit c = (48 \<le> (of_char c :: nat) \<and> (of_char c :: nat) \<le> 57)"

definition is_ident_char :: "char \<Rightarrow> bool" where
  "is_ident_char c =
     (is_digit c \<or> c = CHR ''_''
      \<or> (65 \<le> (of_char c :: nat) \<and> (of_char c :: nat) \<le> 90)
      \<or> (97 \<le> (of_char c :: nat) \<and> (of_char c :: nat) \<le> 122))"

definition digit_val :: "char \<Rightarrow> nat" where
  "digit_val c = of_char c - 48"

definition nat_of_digits :: "string \<Rightarrow> nat" where
  "nat_of_digits ds = foldl (\<lambda>acc c. 10 * acc + digit_val c) 0 ds"

definition hex_val :: "char \<Rightarrow> nat option" where
  "hex_val c =
     (let n = (of_char c :: nat) in
      if 48 \<le> n \<and> n \<le> 57 then Some (n - 48)
      else if 97 \<le> n \<and> n \<le> 102 then Some (n - 87)
      else if 65 \<le> n \<and> n \<le> 70 then Some (n - 55)
      else None)"

function strip_zeros :: "int \<Rightarrow> int \<Rightarrow> int \<times> int" where
  "strip_zeros m e =
     (if m \<noteq> 0 \<and> m mod 10 = 0 then strip_zeros (m div 10) (e + 1) else (m, e))"
  by pat_completeness auto
termination
  by (relation "measure (\<lambda>(m, e). nat \<bar>m\<bar>)") auto

declare strip_zeros.simps [simp del]

definition mk_float :: "int \<Rightarrow> int \<Rightarrow> pyval" where
  "mk_float m e =
     (if m = 0 then PFloat 0 0 else case strip_zeros m e of (m', e') \<Rightarrow> PFloat m' e')"

text \<open>The exponent of a float literal: \<open>e\<close> or \<open>E\<close>, a sign if any, digits.\<close>

definition parse_exponent :: "string \<Rightarrow> (int \<times> string) option" where
  "parse_exponent s =
     (case s of
        [] \<Rightarrow> None
      | c # cs \<Rightarrow>
          if c = CHR ''e'' \<or> c = CHR ''E'' then
            (let (neg, r) =
                   (case cs of
                      [] \<Rightarrow> (False, cs)
                    | d # ds \<Rightarrow>
                        if d = CHR ''-'' then (True, ds)
                        else if d = CHR ''+'' then (False, ds)
                        else (False, cs));
                 ds = takeWhile is_digit r
             in if ds = [] then None
                else Some ((if neg then - int (nat_of_digits ds) else int (nat_of_digits ds)),
                           dropWhile is_digit r))
          else None)"

text \<open>
  An unsigned number: digits, a fraction if any, an exponent if any. With a fraction or an
  exponent it is a float, otherwise an integer (which may not start with a zero).
\<close>

definition parse_number :: "string \<Rightarrow> (pyval \<times> string) option" where
  "parse_number s =
     (let ip = takeWhile is_digit s; r1 = dropWhile is_digit s in
      if ip = [] then None
      else
        let (fp, is_float, r2) =
              (case r1 of
                 [] \<Rightarrow> ([], False, r1)
               | c # cs \<Rightarrow>
                   if c = CHR ''.'' then (takeWhile is_digit cs, True, dropWhile is_digit cs)
                   else ([], False, r1))
        in case parse_exponent r2 of
             Some (ex, r3) \<Rightarrow>
               Some (mk_float (int (nat_of_digits (ip @ fp))) (ex - int (length fp)), r3)
           | None \<Rightarrow>
               if is_float then
                 Some (mk_float (int (nat_of_digits (ip @ fp))) (- int (length fp)), r2)
               else if 1 < length ip \<and> hd ip = CHR ''0'' \<and> nat_of_digits ip \<noteq> 0 then None
               else Some (PInt (int (nat_of_digits ip)), r2))"

text \<open>The body of a string literal opened by the quote \<open>q\<close>, up to the closing quote.\<close>

fun parse_string :: "char \<Rightarrow> string \<Rightarrow> (string \<times> string) option" where
  "parse_string q [] = None"
| "parse_string q [c] = (if c = q then Some ([], []) else None)"
| "parse_string q (c # d # cs) =
     (if c = q then Some ([], d # cs)
      else if c = CHR 0x0A then None
      else if c = CHR 0x5C then
        (if d = CHR ''x'' then
           (case cs of
              h1 # h2 # cs' \<Rightarrow>
                (case (hex_val h1, hex_val h2) of
                   (Some a, Some b) \<Rightarrow>
                     map_option (\<lambda>(s, r). (char_of (16 * a + b) # s, r)) (parse_string q cs')
                 | _ \<Rightarrow> None)
            | _ \<Rightarrow> None)
         else
           map_option
             (\<lambda>(s, r).
                ((if d = CHR ''n'' then [CHR 0x0A]
                  else if d = CHR ''r'' then [CHR 0x0D]
                  else if d = CHR ''t'' then [CHR 0x09]
                  else if d = CHR 0x5C \<or> d = CHR 0x27 \<or> d = CHR 0x22 then [d]
                  else [c, d]) @ s, r))
             (parse_string q cs))
      else map_option (\<lambda>(s, r). (c # s, r)) (parse_string q (d # cs)))"

definition negate :: "pyval \<Rightarrow> pyval" where
  "negate v = (case v of PInt i \<Rightarrow> PInt (- i) | PFloat m e \<Rightarrow> PFloat (- m) e | _ \<Rightarrow> v)"

fun hashable :: "pyval \<Rightarrow> bool" where
  "hashable (PList xs) = False"
| "hashable (PDict kvs) = False"
| "hashable (PTuple xs) = list_all hashable xs"
| "hashable _ = True"

text \<open>
  The evaluator proper, by recursive descent. The first argument bounds the number of
  nested calls; every call consumes a character, so the length of the text is enough.
  \<open>parse_items\<close> reads the elements of a list or tuple up to the closing bracket and tells
  whether a comma stood last, \<open>parse_pairs\<close> reads the entries of a dict.
\<close>

fun parse_value :: "nat \<Rightarrow> string \<Rightarrow> (pyval \<times> string) option"
  and parse_items :: "nat \<Rightarrow> char \<Rightarrow> string \<Rightarrow> (pyval list \<times> bool \<times> string) option"
  and parse_pairs :: "nat \<Rightarrow> string \<Rightarrow> ((pyval \<times> pyval) list \<times> string) option"
where
  "parse_value 0 s = None"
| "parse_value (Suc n) s =
     (case dropWhile is_blank s of
        [] \<Rightarrow> None
      | c # cs \<Rightarrow>
          if c = CHR ''['' then
            (case parse_items n CHR '']'' cs of
               None \<Rightarrow> None
             | Some (xs, t, r) \<Rightarrow> Some (PList xs, r))
          else if c = CHR ''('' then
            (case parse_items n CHR '')'' cs of
               None \<Rightarrow> None
             | Some (xs, t, r) \<Rightarrow>
                 (case xs of
                    [x] \<Rightarrow> Some (if t then PTuple xs else x, r)
                  | _ \<Rightarrow> Some (PTuple xs, r)))
          else if c = CHR ''{'' then
            (case parse_pairs n cs of
               None \<Rightarrow> None
             | Some (kvs, r) \<Rightarrow> Some (PDict (foldl (\<lambda>d (k, v). dict_set d k v) [] kvs), r))
          else if c = CHR 0x27 \<or> c = CHR 0x22 then
            map_option (\<lambda>(str, r). (PStr str, r)) (parse_string c cs)
          else if c = CHR ''-'' then
            map_option (\<lambda>(v, r). (negate v, r)) (parse_number (dropWhile is_blank cs))
          else if c = CHR ''+'' then parse_number (dropWhile is_blank cs)
          else if is_digit c then parse_number (c # cs)
          else
            (let w = takeWhile is_ident_char (c # cs); r = dropWhile is_ident_char (c # cs) in
             if w = ''None'' then Some (PNone, r)
             else if w = ''True'' then Some (PBool True, r)
             else if w = ''False'' then Some (PBool False, r)
             else None))"
| "parse_items 0 close s = None"
| "parse_items (Suc n) close s =
     (case dropWhile is_blank s of
        [] \<Rightarrow> None
      | c # cs \<Rightarrow>
          if c = close then Some ([], False, cs)
          else
            (case parse_value n (c # cs) of
               None \<Rightarrow> None
             | Some (v, r) \<Rightarrow>
                 (case dropWhile is_blank r of
                    [] \<Rightarrow> None
                  | d # ds \<Rightarrow>
                      if d = close then Some ([v], False, ds)
                      else if d = CHR '','' then
                        (case parse_items n close ds of
                           None \<Rightarrow> None
                         | Some (vs, t, r') \<Rightarrow> Some (v # vs, vs = [] \<or> t, r'))
                      else None)))"
| "parse_pairs 0 s = None"
| "parse_pairs (Suc n) s =
     (case dropWhile is_blank s of
        [] \<Rightarrow> None
      | c # cs \<Rightarrow>
          if c = CHR ''}'' then Some ([], cs)
          else
            (case parse_value n (c # cs) of
               None \<Rightarrow> None
             | Some (k, r) \<Rightarrow>
                 (case dropWhile is_blank r of
                    [] \<Rightarrow> None
                  | d # ds \<Rightarrow>
                      if d \<noteq> CHR '':'' \<or> \<not> hashable k then None
                      else
                        (case parse_value n ds of
                           None \<Rightarrow> None
                         | Some (v, r') \<Rightarrow>
                             (case dropWhile is_blank r' of
                                [] \<Rightarrow> None
                              | e # es \<Rightarrow>
                                  if e = CHR ''}'' then Some ([(k, v)], es)
                                  else if e = CHR '','' then
                                    map_option (\<lambda>(kvs, r''). ((k, v) # kvs, r''))
                                      (parse_pairs n es)
                                  else None)))))"

text \<open>
  \<open>ast.literal_eval\<close>: the whole text must be one literal. Anything else (a name, a call
  such as \<open>array(...)\<close>, a broken text) raises.
\<close>

definition literal_eval :: "string \<Rightarrow> exn + pyval" where
  "literal_eval s =
     (case parse_value (Suc (length s)) s of
        None \<Rightarrow> Inl MalformedLiteral
      | Some (v, r) \<Rightarrow> if dropWhile is_blank r = [] then Inr v else Inl MalformedLiteral)"

text \<open>
  The values that a literal denotes: no numpy scalar, no array and no other object occurs
  in them.
\<close>

fun literal :: "pyval \<Rightarrow> bool" where
  "literal (NpGeneric v) = False"
| "literal (NdArray sh xs) = False"
| "literal (PObj s) = False"
| "literal (PList xs) = list_all literal xs"
| "literal (PTuple xs) = list_all literal xs"
| "literal (PDict kvs) = list_all (\<lambda>(k, v). literal k \<and> literal v) kvs"
| "literal _ = True"

section \<open>Value normalizer\<close>

text \<open>
  \<open>ndarray.tolist()\<close>: the element itself for an array without dimensions; otherwise the
  list, over the first dimension, of the \<open>tolist()\<close> of each sub-array (the elements being
  kept in row-major order, the \<open>i\<close>-th sub-array is the \<open>i\<close>-th run of as many elements as
  the remaining dimensions multiply to).
\<close>

fun tolist :: "nat list \<Rightarrow> pyval list \<Rightarrow> pyval" where
  "tolist [] xs = (case xs of [] \<Rightarrow> PNone | x # _ \<Rightarrow> x)"
| "tolist (n # sh) xs =
     PList (map (\<lambda>i. tolist sh (take (prod_list sh) (drop (i * prod_list sh) xs))) [0..<n])"



text \<open>
  \<open>_to_builtin\<close>, its tests in the order of the source: a numpy scalar is unwrapped;
  numbers, strings, booleans and \<open>None\<close> are returned as they are; a dict keeps its keys
  and has its values converted; a list or tuple is rebuilt from its converted elements; an
  array becomes its \<open>tolist()\<close>; anything else becomes its \<open>str()\<close>.
\<close>

fun to_builtin :: "pyval \<Rightarrow> pyval" where
  "to_builtin (NpGeneric v) = v"
| "to_builtin PNone = PNone"
| "to_builtin (PBool b) = PBool b"
| "to_builtin (PInt i) = PInt i"
| "to_builtin (PFloat m e) = PFloat m e"
| "to_builtin (PStr s) = PStr s"
| "to_builtin (PDict kvs) = PDict (map (\<lambda>(k, v). (k, to_builtin v)) kvs)"
| "to_builtin (PList xs) = PList (map to_builtin xs)"
| "to_builtin (PTuple xs) = PTuple (map to_builtin xs)"
| "to_builtin (NdArray sh xs) = tolist sh xs"
| "to_builtin (PObj s) = PStr s"

text \<open>
  The primitive-only values of the specification: \<open>None\<close>, booleans, numbers, strings,
  and dicts, lists and tuples of such values.
\<close>

fun primitive :: "pyval \<Rightarrow> bool" where
  "primitive PNone = True"
| "primitive (PBool b) = True"
| "primitive (PInt i) = True"
| "primitive (PFloat m e) = True"
| "primitive (PStr s) = True"
| "primitive (PList xs) = list_all primitive xs"
| "primitive (PTuple xs) = list_all primitive xs"
| "primitive (PDict kvs) = list_all (\<lambda>(k, v). primitive k \<and> primitive v) kvs"
| "primitive _ = False"


section \<open>Log records and the record filter\<close>

text \<open>
  A \<open>LogRecord\<close>: the logger's name and the message object. Records are logged without
  arguments (\<open>logger.info(data)\<close>), so \<open>getMessage()\<close> is \<open>str(msg)\<close>.
\<close>

record log_record =
  name :: string
  msg :: pyval

definition getMessage :: "log_record \<Rightarrow> string" where
  "getMessage r = py_str (msg r)"

text \<open>\<open>logging.Filter.filter\<close> of a filter made for the logger name \<open>nm\<close>.\<close>

definition Filter_filter :: "string \<Rightarrow> log_record \<Rightarrow> bool" where
  "Filter_filter nm r =
     (if length nm = 0 then True
      else if nm = name r then True
      else if take (length nm) (name r) \<noteq> nm then False
      else name r ! length nm = CHR ''.'')"

text \<open>
  \<open>InfluxdbMonitorFilter.filter\<close>; the filter is constructed with no name.
\<close>

definition InfluxdbMonitorFilter_filter :: "log_record \<Rightarrow> bool" where
  "InfluxdbMonitorFilter_filter r =
     (if is_dict (msg r) then Filter_filter [] r else False)"

section \<open>Point formatters\<close>

text \<open>
  The formatter's \<open>_json_body\<close>: the point under construction. It has a measurement and
  tags from the constructor on, and fields (\<open>point_fields\<close>) once a record has been
  formatted. \<open>format\<close>
  updates it in place and returns the very same object, so the formatter's state after a
  call and the point returned by the call are one value.
\<close>

record json_body =
  measurement :: string
  tags :: "(string \<times> pyval) list"
  point_fields :: "pyval option"

text \<open>
  What the two shell commands of the constructor returned: the exit code and output of
  \<open>nvidia-smi -L\<close>, and the output of \<open>hostname\<close>.
\<close>

record probe =
  nvidia_returncode :: int
  nvidia_stdout :: string
  hostname_stdout :: string

definition is_space :: "char \<Rightarrow> bool" where
  "is_space c =
     (c = CHR '' '' \<or> (9 \<le> (of_char c :: nat) \<and> (of_char c :: nat) \<le> 13)
      \<or> (28 \<le> (of_char c :: nat) \<and> (of_char c :: nat) \<le> 31))"

definition strip :: "string \<Rightarrow> string" where
  "strip s = rev (dropWhile is_space (rev (dropWhile is_space s)))"

definition is_gpu :: "probe \<Rightarrow> bool" where
  "is_gpu p = (nvidia_returncode p = 0 \<and> nvidia_stdout p \<noteq> [])"

text \<open>\<open>InfluxdbMonitorFormatter.__init__\<close>\<close>

definition InfluxdbMonitorFormatter_init :: "probe \<Rightarrow> json_body" where
  "InfluxdbMonitorFormatter_init p =
     (let hostname = strip (hostname_stdout p) in
      \<lparr> measurement = (if is_gpu p then ''gpu_ip_info'' else ''cpu_ip_info''),
        tags = [(''ip_port'', PStr hostname),
                (''type'', PStr (if is_gpu p then ''gpu'' else ''cpu''))],
        point_fields = None \<rparr>)"

text \<open>
  \<open>InfluxdbMonitorFormatter.format\<close>: a dict message is taken as it is (a copy), any other
  message is evaluated from its text; the result is normalized and stored as the fields.
\<close>

definition InfluxdbMonitorFormatter_format :: "json_body \<Rightarrow> log_record \<Rightarrow> exn + json_body" where
  "InfluxdbMonitorFormatter_format jb r =
     (case (if is_dict (msg r) then Inr (msg r) else literal_eval (getMessage r)) of
        Inl e \<Rightarrow> Inl e
      | Inr msg_dict \<Rightarrow> Inr (jb\<lparr>point_fields := Some (to_builtin msg_dict)\<rparr>))"

text \<open>\<open>ActorMetricsFormatter.__init__\<close>\<close>

definition ActorMetricsFormatter_init :: "probe \<Rightarrow> json_body" where
  "ActorMetricsFormatter_init p = (InfluxdbMonitorFormatter_init p)\<lparr>measurement := ''actor_metrics''\<rparr>"

text \<open>
  \<open>msg_dict.pop(key, None)\<close> on whatever the evaluation returned: the value under the key
  (or \<open>None\<close>) and the dict without the key. A list has a \<open>pop\<close> of one argument at most;
  the other values have none.
\<close>

definition pop_default :: "pyval \<Rightarrow> string \<Rightarrow> exn + (pyval \<times> pyval)" where
  "pop_default d k =
     (case d of
        PDict kvs \<Rightarrow>
          Inr (case dict_get kvs (PStr k) of None \<Rightarrow> PNone | Some v \<Rightarrow> v,
               PDict (dict_del kvs (PStr k)))
      | PList xs \<Rightarrow> Inl TypeError
      | _ \<Rightarrow> Inl AttributeError)"

text \<open>
  \<open>ActorMetricsFormatter.format\<close>: the message is always evaluated from its text; \<open>role\<close>
  and \<open>actor_id\<close> are popped; a role that is true becomes a tag as it is, an \<open>actor_id\<close>
  other than \<open>None\<close> becomes a tag as its \<open>str()\<close>; what is left is stored as the fields.
\<close>

definition ActorMetricsFormatter_format :: "json_body \<Rightarrow> log_record \<Rightarrow> exn + json_body" where
  "ActorMetricsFormatter_format jb r =
     (case literal_eval (getMessage r) of
        Inl e \<Rightarrow> Inl e
      | Inr msg_dict \<Rightarrow>
          (case pop_default msg_dict ''role'' of
             Inl e \<Rightarrow> Inl e
           | Inr (role, d1) \<Rightarrow>
               (case pop_default d1 ''actor_id'' of
                  Inl e \<Rightarrow> Inl e
                | Inr (actor_id, d2) \<Rightarrow>
                    (case truthy role of
                       Inl e \<Rightarrow> Inl e
                     | Inr b \<Rightarrow>
                         (let t1 = (if b then dict_set (tags jb) ''role'' role else tags jb);
                              t2 = (if actor_id \<noteq> PNone
                                    then dict_set t1 ''actor_id'' (PStr (py_str actor_id))
                                    else t1)
                          in Inr (jb\<lparr>tags := t2, point_fields := Some d2\<rparr>))))))"

text \<open>The formatter installed on a handler, with its state.\<close>

datatype formatter =
    InfluxdbMonitorFormatter json_body
  | ActorMetricsFormatter json_body

text \<open>
  \<open>Handler.format\<close>: the installed formatter's \<open>format\<close>. It returns the point and the
  formatter after the call.
\<close>

definition Handler_format :: "formatter \<Rightarrow> log_record \<Rightarrow> exn + (json_body \<times> formatter)" where
  "Handler_format f r =
     (case f of
        InfluxdbMonitorFormatter jb \<Rightarrow>
          (case InfluxdbMonitorFormatter_format jb r of
             Inl e \<Rightarrow> Inl e
           | Inr jb' \<Rightarrow> Inr (jb', InfluxdbMonitorFormatter jb'))
      | ActorMetricsFormatter jb \<Rightarrow>
          (case ActorMetricsFormatter_format jb r of
             Inl e \<Rightarrow> Inl e
           | Inr jb' \<Rightarrow> Inr (jb', ActorMetricsFormatter jb')))"

text \<open>The formatter after the given records have been formatted in turn; a record whose
  formatting raises leaves it as it was.\<close>

fun after_records :: "(json_body \<Rightarrow> log_record \<Rightarrow> exn + json_body) \<Rightarrow> json_body \<Rightarrow> log_record list \<Rightarrow> json_body" where
  "after_records fmt jb [] = jb"
| "after_records fmt jb (r # rs) =
     after_records fmt (case fmt jb r of Inl e \<Rightarrow> jb | Inr jb' \<Rightarrow> jb') rs"

definition field_keys :: "json_body \<Rightarrow> pyval list" where
  "field_keys jb = (case point_fields jb of Some (PDict kvs) \<Rightarrow> dict_keys kvs | _ \<Rightarrow> [])"

section \<open>Sink writer\<close>

text \<open>
  What \<open>InfluxdbMonitorHandlerInner.emit\<close> does to the outside, in order: the diagnostic
  line of an attempt (measurement, tags, field keys), the call of \<open>write_points\<close> on a
  client, the error line, closing a client, creating one.
\<close>

datatype event =
    Print_emit string "(string \<times> pyval) list" "pyval list"
  | Write_points nat json_body
  | Print_error exn
  | Close nat
  | Create nat

text \<open>
  The sink, as the writer sees it: \<open>sink c p\<close> is the exception that \<open>write_points\<close>
  raises for the point \<open>p\<close> on the client number \<open>c\<close>, or \<open>None\<close> when the write
  succeeds. Clients are numbered in the order of their creation. Closing a client and
  constructing one (which opens no connection) do not raise.
\<close>

type_synonym sink = "nat \<Rightarrow> json_body \<Rightarrow> exn option"

record handler_inner =
  ip :: string
  port :: string
  database :: string
  client :: nat
  fmt :: formatter
  trace :: "event list"

text \<open>\<open>list(msg.get("fields", {}).keys())\<close>: only a dict has keys.\<close>

definition keys_of_fields :: "json_body \<Rightarrow> exn + pyval list" where
  "keys_of_fields jb =
     (case point_fields jb of
        None \<Rightarrow> Inr []
      | Some (PDict kvs) \<Rightarrow> Inr (dict_keys kvs)
      | Some _ \<Rightarrow> Inl AttributeError)"

text \<open>
  The body of the \<open>try\<close>: format, print, write. \<open>Inl\<close> is an exception, with the handler
  as it stood when the exception was raised.
\<close>

definition emit_try :: "sink \<Rightarrow> handler_inner \<Rightarrow> log_record \<Rightarrow> (exn \<times> handler_inner) + handler_inner" where
  "emit_try sink h r =
     (case Handler_format (fmt h) r of
        Inl e \<Rightarrow> Inl (e, h)
      | Inr (m, f') \<Rightarrow>
          (let h1 = h\<lparr>fmt := f'\<rparr> in
           case keys_of_fields m of
             Inl e \<Rightarrow> Inl (e, h1)
           | Inr ks \<Rightarrow>
               (let h2 = h1\<lparr>trace := trace h1 @ [Print_emit (measurement m) (tags m) ks]\<rparr>;
                    h3 = h2\<lparr>trace := trace h2 @ [Write_points (client h2) m]\<rparr>
                in case sink (client h2) m of
                     Some e \<Rightarrow> Inl (e, h3)
                   | None \<Rightarrow> Inr h3)))"

text \<open>The \<open>except\<close> branch: print the error, close the client, create a new one.\<close>

definition emit_except :: "exn \<Rightarrow> handler_inner \<Rightarrow> handler_inner" where
  "emit_except e h =
     h\<lparr>client := Suc (client h),
       trace := trace h @ [Print_error e, Close (client h), Create (Suc (client h))]\<rparr>"

text \<open>\<open>for _ in range(n)\<close> around the \<open>try\<close>, left by \<open>break\<close> after a write that succeeded.\<close>

fun emit_loop :: "sink \<Rightarrow> nat \<Rightarrow> handler_inner \<Rightarrow> log_record \<Rightarrow> handler_inner" where
  "emit_loop sink 0 h r = h"
| "emit_loop sink (Suc n) h r =
     (case emit_try sink h r of
        Inr h' \<Rightarrow> h'
      | Inl (e, h') \<Rightarrow> emit_loop sink n (emit_except e h') r)"

text \<open>
  \<open>InfluxdbMonitorHandlerInner.emit\<close>. \<open>Inl\<close> would be an exception leaving the method;
  \<open>Inr\<close> carries the value returned (the method has no \<open>return\<close>, so it is \<open>None\<close>) and
  the handler after the call.
\<close>

definition InfluxdbMonitorHandlerInner_emit :: "sink \<Rightarrow> handler_inner \<Rightarrow> log_record \<Rightarrow> exn + (pyval \<times> handler_inner)" where
  "InfluxdbMonitorHandlerInner_emit sink h r = Inr (PNone, emit_loop sink 2 h r)"

definition write_attempts :: "event list \<Rightarrow> nat" where
  "write_attempts evs = length (filter (\<lambda>ev. case ev of Write_points c p \<Rightarrow> True | _ \<Rightarrow> False) evs)"

definition errors_printed :: "event list \<Rightarrow> exn list" where
  "errors_printed evs = concat (map (\<lambda>ev. case ev of Print_error e \<Rightarrow> [e] | _ \<Rightarrow> []) evs)"

section \<open>Pipeline controller\<close>

text \<open>
  \<open>InfluxdbMonitorHandler\<close>: a bounded queue of records, a \<open>QueueHandler\<close> with the record
  filter in front of it on the producer's side, and a \<open>QueueListener\<close> that feeds the inner
  handler on the consumer's side. \<open>errors\<close> are the exceptions that \<open>handleError\<close>
  reported on standard error.
\<close>

record monitor_handler =
  queue :: "log_record list"
  maxsize :: int
  inner :: handler_inner
  errors :: "exn list"

text \<open>\<open>QueueHandler.prepare\<close>: the message is replaced by its text.\<close>

definition prepare :: "log_record \<Rightarrow> log_record" where
  "prepare r = r\<lparr>msg := PStr (getMessage r)\<rparr>"

text \<open>\<open>Queue.put_nowait\<close>: a queue with a positive \<open>maxsize\<close> raises when it holds that many.\<close>

definition put_nowait :: "monitor_handler \<Rightarrow> log_record \<Rightarrow> exn + monitor_handler" where
  "put_nowait mh r =
     (if 0 < maxsize mh \<and> maxsize mh \<le> int (length (queue mh)) then Inl Full
      else Inr (mh\<lparr>queue := queue mh @ [r]\<rparr>))"

text \<open>\<open>Handler.handleError\<close>: the exception is reported, not raised.\<close>

definition handleError :: "monitor_handler \<Rightarrow> exn \<Rightarrow> monitor_handler" where
  "handleError mh e = mh\<lparr>errors := errors mh @ [e]\<rparr>"

text \<open>\<open>QueueHandler.emit\<close>: \<open>try: self.enqueue(self.prepare(record))\<close>,
  \<open>except Exception: self.handleError(record)\<close>.\<close>

definition QueueHandler_emit :: "monitor_handler \<Rightarrow> log_record \<Rightarrow> exn + monitor_handler" where
  "QueueHandler_emit mh r =
     (case put_nowait mh (prepare r) of
        Inl e \<Rightarrow> Inr (handleError mh e)
      | Inr mh' \<Rightarrow> Inr mh')"

text \<open>\<open>Handler.handle\<close> of the queue handler: emit the record if the filter lets it pass.\<close>

definition QueueHandler_handle :: "monitor_handler \<Rightarrow> log_record \<Rightarrow> exn + monitor_handler" where
  "QueueHandler_handle mh r =
     (if InfluxdbMonitorFilter_filter r then QueueHandler_emit mh r else Inr mh)"

text \<open>\<open>InfluxdbMonitorHandler.emit\<close>, the producer's entry point.\<close>

definition InfluxdbMonitorHandler_emit :: "monitor_handler \<Rightarrow> log_record \<Rightarrow> exn + monitor_handler" where
  "InfluxdbMonitorHandler_emit mh r = QueueHandler_handle mh r"

text \<open>
  One turn of the listener's thread: take the oldest record off the queue and hand it to
  the inner handler. With an empty queue the thread waits, and nothing changes.
\<close>

definition listener_step :: "sink \<Rightarrow> monitor_handler \<Rightarrow> exn + monitor_handler" where
  "listener_step sink mh =
     (case queue mh of
        [] \<Rightarrow> Inr mh
      | r # q \<Rightarrow>
          (case InfluxdbMonitorHandlerInner_emit sink (inner mh) r of
             Inl e \<Rightarrow> Inl e
           | Inr (rv, h') \<Rightarrow> Inr (mh\<lparr>queue := q, inner := h'\<rparr>)))"

section \<open>Example values\<close>

text \<open>A host without a GPU and one with a GPU, both called \<open>host-1\<close>.\<close>

definition cpu_probe :: probe where
  "cpu_probe = \<lparr> nvidia_returncode = 127, nvidia_stdout = [],
                  hostname_stdout = ''host-1'' @ [CHR 0x0A] \<rparr>"

definition gpu_probe :: probe where
  "gpu_probe = \<lparr> nvidia_returncode = 0, nvidia_stdout = ''GPU 0: Tesla T4'' @ [CHR 0x0A],
                  hostname_stdout = ''host-1'' @ [CHR 0x0A] \<rparr>"

definition record_of :: "pyval \<Rightarrow> log_record" where
  "record_of v = \<lparr> name = ''monitor'', msg = v \<rparr>"

text \<open>The records \<open>{"loss": 0.2}\<close> and \<open>{"role": "attacker", "actor_id": 7, "reward": 1.5}\<close>.\<close>

definition loss_record :: log_record where
  "loss_record = record_of (PDict [(PStr ''loss'', PFloat 2 (- 1))])"

definition attacker_record :: log_record where
  "attacker_record =
     record_of (PDict [(PStr ''role'', PStr ''attacker''), (PStr ''actor_id'', PInt 7),
                       (PStr ''reward'', PFloat 15 (- 1))])"

text \<open>
  The records \<open>{"role": "", "reward": 1.5}\<close>, \<open>{}\<close> and \<open>{"type": "x"}\<close>.
\<close>

definition empty_role_record :: log_record where
  "empty_role_record =
     record_of (PDict [(PStr ''role'', PStr ''''), (PStr ''reward'', PFloat 15 (- 1))])"


definition type_record :: log_record where
  "type_record = record_of (PDict [(PStr ''type'', PStr ''x'')])"

text \<open>The point that \<open>loss_record\<close> gives on the host without a GPU.\<close>

definition loss_point :: json_body where
  "loss_point = \<lparr> measurement = ''cpu_ip_info'',
                   tags = [(''ip_port'', PStr ''host-1''), (''type'', PStr ''cpu'')],
                   point_fields = Some (PDict [(PStr ''loss'', PFloat 2 (- 1))]) \<rparr>"

text \<open>A sink that refuses every write, and one that accepts every write.\<close>

definition down_sink :: sink where
  "down_sink c p = Some (SinkError ''connection refused'')"


definition inner0 :: handler_inner where
  "inner0 = \<lparr> ip = ''localhost'', port = ''8086'', database = ''monitordb'', client = 0,
               fmt = InfluxdbMonitorFormatter (InfluxdbMonitorFormatter_init cpu_probe),
               trace = [] \<rparr>"

text \<open>A pipeline with room for one record, empty and full.\<close>

definition pipeline0 :: monitor_handler where
  "pipeline0 = \<lparr> queue = [], maxsize = 1, inner = inner0, errors = [] \<rparr>"

definition pipeline_full :: monitor_handler where
  "pipeline_full = \<lparr> queue = [prepare loss_record], maxsize = 1, inner = inner0, errors = [] \<rparr>"

section \<open>Properties of the literal evaluator\<close>

lemma literal_mk_float: "literal (mk_float m e)"
  by (simp add: mk_float_def split: prod.splits)

lemma literal_parse_number: "parse_number s = Some (v, r) \<Longrightarrow> literal v"
  unfolding parse_number_def Let_def
  by (auto simp: literal_mk_float split: if_splits list.splits option.splits prod.splits)

lemma literal_negate: "literal v \<Longrightarrow> literal (negate v)"
  by (cases v) (auto simp: negate_def)

lemma literal_dict_set:
  "list_all (\<lambda>(k, v). literal k \<and> literal v) d \<Longrightarrow> literal k \<Longrightarrow> literal v
   \<Longrightarrow> list_all (\<lambda>(k, v). literal k \<and> literal v) (dict_set d k v)"
  by (induction d) auto

lemma literal_foldl_dict_set:
  "list_all (\<lambda>(k, v). literal k \<and> literal v) kvs \<Longrightarrow> list_all (\<lambda>(k, v). literal k \<and> literal v) d
   \<Longrightarrow> list_all (\<lambda>(k, v). literal k \<and> literal v) (foldl (\<lambda>d (k, v). dict_set d k v) d kvs)"
  by (induction kvs arbitrary: d) (auto simp: literal_dict_set)

lemma literal_parse:
  "(\<forall>s v r. parse_value n s = Some (v, r) \<longrightarrow> literal v)
   \<and> (\<forall>c s vs t r. parse_items n c s = Some (vs, t, r) \<longrightarrow> list_all literal vs)
   \<and> (\<forall>s kvs r. parse_pairs n s = Some (kvs, r) \<longrightarrow> list_all (\<lambda>(k, v). literal k \<and> literal v) kvs)"
proof (induction n)
  case 0
  then show ?case by simp
next
  case (Suc n)
  then have iv: "\<And>s v r. parse_value n s = Some (v, r) \<Longrightarrow> literal v"
    and ii: "\<And>c s vs t r. parse_items n c s = Some (vs, t, r) \<Longrightarrow> list_all literal vs"
    and ip: "\<And>s kvs r. parse_pairs n s = Some (kvs, r) \<Longrightarrow> list_all (\<lambda>(k, v). literal k \<and> literal v) kvs"
    by blast+
  have v: "\<And>s v r. parse_value (Suc n) s = Some (v, r) \<Longrightarrow> literal v"
    by (auto simp: Let_def literal_foldl_dict_set literal_negate
        dest!: ii ip literal_parse_number split: list.splits if_splits option.splits prod.splits)
  have i: "\<And>c s vs t r. parse_items (Suc n) c s = Some (vs, t, r) \<Longrightarrow> list_all literal vs"
    by (auto dest!: ii iv split: list.splits if_splits option.splits prod.splits)
  have p: "\<And>s kvs r. parse_pairs (Suc n) s = Some (kvs, r) \<Longrightarrow> list_all (\<lambda>(k, v). literal k \<and> literal v) kvs"
    by (auto dest!: ip iv split: list.splits if_splits option.splits prod.splits)
  from v i p show ?case by blast
qed

lemma literal_parse_value: "parse_value n s = Some (v, r) \<Longrightarrow> literal v"
  using literal_parse [of n] by blast

lemma literal_eval_literal: "literal_eval s = Inr v \<Longrightarrow> literal v"
  unfolding literal_eval_def
  by (auto simp del: parse_value.simps dest: literal_parse_value split: option.splits if_splits)

lemma truthy_literal: "literal v \<Longrightarrow> \<exists>b. truthy v = Inr b"
  by (cases v) auto

section \<open>Properties of the value normalizer\<close>






text \<open>
  Claim C7. The normalizer is the identity on primitive-only values: a value built only
  from \<open>None\<close>, booleans, numbers, strings, and dicts, lists and tuples of such values is
  returned equal to itself.
\<close>

theorem to_builtin_primitive_identity: "primitive x \<Longrightarrow> to_builtin x = x"
  by (induction x rule: to_builtin.induct) (auto simp: list_all_iff intro!: map_idI)

theorem to_builtin_primitive_identity_witness:
  "primitive (PDict [(PStr ''a'', PList [PInt 1, PFloat 15 (- 1), PNone]),
                     (PStr ''b'', PTuple [PBool True, PStr ''x''])])
   \<and> to_builtin (PDict [(PStr ''a'', PList [PInt 1, PFloat 15 (- 1), PNone]),
                        (PStr ''b'', PTuple [PBool True, PStr ''x''])])
     = PDict [(PStr ''a'', PList [PInt 1, PFloat 15 (- 1), PNone]),
              (PStr ''b'', PTuple [PBool True, PStr ''x''])]"
proof -
  have p: "primitive (PDict [(PStr ''a'', PList [PInt 1, PFloat 15 (- 1), PNone]),
                             (PStr ''b'', PTuple [PBool True, PStr ''x''])])"
    by simp
  from p to_builtin_primitive_identity [OF p] show ?thesis by simp
qed



section \<open>Properties of the record filter and of the producer's entry point\<close>

text \<open>
  Claim C6. The filter returns true for a record whose message is a dict and false for a
  record whose message is anything else; a record that is not a dict leaves the pipeline,
  its queue included, as it was.
\<close>

theorem filter_admits_exactly_dicts:
  "InfluxdbMonitorFilter_filter r = is_dict (msg r)
   \<and> (\<not> is_dict (msg r) \<longrightarrow> InfluxdbMonitorHandler_emit mh r = Inr mh)"
  by (simp add: InfluxdbMonitorFilter_filter_def Filter_filter_def InfluxdbMonitorHandler_emit_def
      QueueHandler_handle_def)

theorem filter_admits_exactly_dicts_witness:
  "InfluxdbMonitorFilter_filter loss_record
   \<and> \<not> InfluxdbMonitorFilter_filter (record_of (PStr ''hello world''))
   \<and> \<not> InfluxdbMonitorFilter_filter (record_of (PList [PInt 1, PInt 2]))
   \<and> \<not> InfluxdbMonitorFilter_filter (record_of (PInt 3))
   \<and> InfluxdbMonitorHandler_emit pipeline0 (record_of (PStr ''hello world'')) = Inr pipeline0"
  using filter_admits_exactly_dicts [of loss_record pipeline0]
    filter_admits_exactly_dicts [of "record_of (PStr ''hello world'')" pipeline0]
    filter_admits_exactly_dicts [of "record_of (PList [PInt 1, PInt 2])" pipeline0]
    filter_admits_exactly_dicts [of "record_of (PInt 3)" pipeline0]
  by (simp add: loss_record_def record_of_def is_dict_def)



section \<open>Properties of the point formatters\<close>

subsection \<open>Dictionaries\<close>

lemma dict_get_dict_set:
  "dict_get (dict_set d k v) k' = (if k' = k then Some v else dict_get d k')"
  by (induction d) auto

lemma map_fst_dict_set:
  "map fst (dict_set d k v) = (if k \<in> fst ` set d then map fst d else map fst d @ [k])"
  by (induction d k v rule: dict_set.induct) (force simp: image_iff)+

lemma dict_keys_dict_set:
  "set (dict_keys (dict_set d k v)) = insert k (set (dict_keys d))"
  by (auto simp: dict_keys_def map_fst_dict_set simp flip: set_map)

lemma dict_set_same: "dict_get d k = Some v \<Longrightarrow> dict_set d k v = d"
  by (induction d) (auto split: if_splits)

lemma dict_keys_dict_del:
  "set (dict_keys (dict_del d k)) = set (dict_keys d) - {k}"
  by (auto simp: dict_keys_def dict_del_def)

lemma dict_get_dict_del:
  "dict_get (dict_del d k) k' = (if k' = k then None else dict_get d k')"
  by (induction d) (auto simp: dict_del_def)

lemma dict_get_None_iff: "dict_get d k = None \<longleftrightarrow> k \<notin> set (dict_keys d)"
  by (induction d k rule: dict_get.induct) (auto simp: dict_keys_def)

lemma dict_get_literal:
  "list_all (\<lambda>(k, v). literal k \<and> literal v) d \<Longrightarrow> dict_get d k = Some v \<Longrightarrow> literal v"
  by (induction d) (auto split: if_splits)


subsection \<open>The actor-metrics formatter, step by step\<close>

lemma truthy_popped:
  assumes "literal (PDict d)"
  shows "\<exists>b. truthy (case dict_get d k of None \<Rightarrow> PNone | Some v \<Rightarrow> v) = Inr b"
proof (cases "dict_get d k")
  case None
  then show ?thesis by auto
next
  case (Some v)
  with assms have "literal v" by (auto dest: dict_get_literal)
  with Some show ?thesis by (simp add: truthy_literal)
qed

text \<open>The result of the actor-metrics formatter, written out.\<close>

lemma actor_format_eval:
  assumes "literal_eval (getMessage r) = Inr (PDict d)"
  shows "\<exists>b. truthy (case dict_get d (PStr ''role'') of None \<Rightarrow> PNone | Some v \<Rightarrow> v) = Inr b
    \<and> ActorMetricsFormatter_format jb r =
        Inr (jb\<lparr>tags :=
                 (let role = (case dict_get d (PStr ''role'') of None \<Rightarrow> PNone | Some v \<Rightarrow> v);
                      actor_id = (case dict_get d (PStr ''actor_id'') of None \<Rightarrow> PNone | Some v \<Rightarrow> v);
                      t1 = (if b then dict_set (tags jb) ''role'' role else tags jb)
                  in if actor_id \<noteq> PNone then dict_set t1 ''actor_id'' (PStr (py_str actor_id)) else t1),
               point_fields := Some (PDict (dict_del (dict_del d (PStr ''role'')) (PStr ''actor_id'')))\<rparr>)"
proof -
  from assms have "literal (PDict d)" by (rule literal_eval_literal)
  then obtain b where b: "truthy (case dict_get d (PStr ''role'') of None \<Rightarrow> PNone | Some v \<Rightarrow> v) = Inr b"
    using truthy_popped by blast
  show ?thesis
    using assms b
    by (intro exI [of _ b])
      (simp add: ActorMetricsFormatter_format_def pop_default_def dict_get_dict_del Let_def)
qed

lemma actor_format_total:
  assumes "literal_eval (getMessage r) = Inr (PDict d)"
  shows "\<exists>jb'. ActorMetricsFormatter_format jb r = Inr jb'"
  using actor_format_eval [OF assms, of jb] by blast

lemma actor_format_props:
  assumes e: "literal_eval (getMessage r) = Inr (PDict d)"
    and f: "ActorMetricsFormatter_format jb r = Inr jb'"
  shows actor_measurement: "measurement jb' = measurement jb"
    and actor_fields:
      "point_fields jb' = Some (PDict (dict_del (dict_del d (PStr ''role'')) (PStr ''actor_id'')))"
    and actor_role_true:
      "\<And>v. dict_get d (PStr ''role'') = Some v \<Longrightarrow> truthy v = Inr True
           \<Longrightarrow> dict_get (tags jb') ''role'' = Some v"
    and actor_role_false:
      "\<And>v. dict_get d (PStr ''role'') = Some v \<Longrightarrow> truthy v = Inr False
           \<Longrightarrow> dict_get (tags jb') ''role'' = dict_get (tags jb) ''role''"
    and actor_role_absent:
      "dict_get d (PStr ''role'') = None \<Longrightarrow> dict_get (tags jb') ''role'' = dict_get (tags jb) ''role''"
    and actor_id_set:
      "\<And>a. dict_get d (PStr ''actor_id'') = Some a \<Longrightarrow> a \<noteq> PNone
           \<Longrightarrow> dict_get (tags jb') ''actor_id'' = Some (PStr (py_str a))"
    and actor_id_absent:
      "dict_get d (PStr ''actor_id'') = None \<or> dict_get d (PStr ''actor_id'') = Some PNone
           \<Longrightarrow> dict_get (tags jb') ''actor_id'' = dict_get (tags jb) ''actor_id''"
    and actor_other_tags:
      "\<And>k. k \<noteq> ''role'' \<Longrightarrow> k \<noteq> ''actor_id'' \<Longrightarrow> dict_get (tags jb') k = dict_get (tags jb) k"
    and actor_keys_grow: "set (dict_keys (tags jb)) \<subseteq> set (dict_keys (tags jb'))"
    and actor_keys_bound:
      "set (dict_keys (tags jb')) \<subseteq> set (dict_keys (tags jb)) \<union> {''role'', ''actor_id''}"
proof -
  from actor_format_eval [OF e, of jb] obtain b where
    b: "truthy (case dict_get d (PStr ''role'') of None \<Rightarrow> PNone | Some v \<Rightarrow> v) = Inr b"
    and g: "ActorMetricsFormatter_format jb r = Inr (jb\<lparr>tags :=
                 (let role = (case dict_get d (PStr ''role'') of None \<Rightarrow> PNone | Some v \<Rightarrow> v);
                      actor_id = (case dict_get d (PStr ''actor_id'') of None \<Rightarrow> PNone | Some v \<Rightarrow> v);
                      t1 = (if b then dict_set (tags jb) ''role'' role else tags jb)
                  in if actor_id \<noteq> PNone then dict_set t1 ''actor_id'' (PStr (py_str actor_id)) else t1),
               point_fields := Some (PDict (dict_del (dict_del d (PStr ''role'')) (PStr ''actor_id'')))\<rparr>)"
    by (elim exE conjE)
  from f g have jb': "jb' = jb\<lparr>tags :=
                 (let role = (case dict_get d (PStr ''role'') of None \<Rightarrow> PNone | Some v \<Rightarrow> v);
                      actor_id = (case dict_get d (PStr ''actor_id'') of None \<Rightarrow> PNone | Some v \<Rightarrow> v);
                      t1 = (if b then dict_set (tags jb) ''role'' role else tags jb)
                  in if actor_id \<noteq> PNone then dict_set t1 ''actor_id'' (PStr (py_str actor_id)) else t1),
               point_fields := Some (PDict (dict_del (dict_del d (PStr ''role'')) (PStr ''actor_id'')))\<rparr>"
    by simp
  show "measurement jb' = measurement jb" by (simp add: jb')
  show "point_fields jb' = Some (PDict (dict_del (dict_del d (PStr ''role'')) (PStr ''actor_id'')))"
    by (simp add: jb')
  show "dict_get (tags jb') ''role'' = Some v"
    if "dict_get d (PStr ''role'') = Some v" "truthy v = Inr True" for v
    using that b by (simp add: jb' Let_def dict_get_dict_set)
  show "dict_get (tags jb') ''role'' = dict_get (tags jb) ''role''"
    if "dict_get d (PStr ''role'') = Some v" "truthy v = Inr False" for v
    using that b by (simp add: jb' Let_def dict_get_dict_set)
  show "dict_get (tags jb') ''role'' = dict_get (tags jb) ''role''"
    if "dict_get d (PStr ''role'') = None"
    using that b by (simp add: jb' Let_def dict_get_dict_set)
  show "dict_get (tags jb') ''actor_id'' = Some (PStr (py_str a))"
    if "dict_get d (PStr ''actor_id'') = Some a" "a \<noteq> PNone" for a
    using that by (simp add: jb' Let_def dict_get_dict_set)
  show "dict_get (tags jb') ''actor_id'' = dict_get (tags jb) ''actor_id''"
    if "dict_get d (PStr ''actor_id'') = None \<or> dict_get d (PStr ''actor_id'') = Some PNone"
    using that by (auto simp: jb' Let_def dict_get_dict_set)
  show "dict_get (tags jb') k = dict_get (tags jb) k" if "k \<noteq> ''role''" "k \<noteq> ''actor_id''" for k
    using that by (simp add: jb' Let_def dict_get_dict_set)
  show "set (dict_keys (tags jb)) \<subseteq> set (dict_keys (tags jb'))"
    by (auto simp: jb' Let_def dict_keys_dict_set)
  show "set (dict_keys (tags jb')) \<subseteq> set (dict_keys (tags jb)) \<union> {''role'', ''actor_id''}"
    by (auto simp: jb' Let_def dict_keys_dict_set split: if_splits)
qed

subsection \<open>The formatter after any number of calls\<close>

lemma json_body_fields_update:
  "jb\<lparr>point_fields := v\<rparr> = \<lparr> measurement = measurement jb, tags = tags jb, point_fields = v \<rparr>"
  by (cases jb) simp

lemma general_format_dict:
  "msg r = PDict d \<Longrightarrow>
   InfluxdbMonitorFormatter_format jb r
     = Inr (jb\<lparr>point_fields := Some (PDict (map (\<lambda>(k, v). (k, to_builtin v)) d))\<rparr>)"
  by (simp add: InfluxdbMonitorFormatter_format_def is_dict_def)

lemma general_format_keeps:
  "InfluxdbMonitorFormatter_format jb r = Inr jb' \<Longrightarrow> measurement jb' = measurement jb \<and> tags jb' = tags jb"
  by (auto simp: InfluxdbMonitorFormatter_format_def split: sum.splits if_splits)

lemma general_after_records:
  "measurement (after_records InfluxdbMonitorFormatter_format jb rs) = measurement jb
   \<and> tags (after_records InfluxdbMonitorFormatter_format jb rs) = tags jb"
proof (induction rs arbitrary: jb)
  case Nil
  then show ?case by simp
next
  case (Cons r rs)
  show ?case
  proof (cases "InfluxdbMonitorFormatter_format jb r")
    case (Inl e)
    with Cons show ?thesis by simp
  next
    case (Inr jb')
    with Cons [of jb'] general_format_keeps [OF Inr] show ?thesis by simp
  qed
qed

lemma actor_format_Inr:
  "ActorMetricsFormatter_format jb r = Inr jb' \<Longrightarrow> \<exists>d. literal_eval (getMessage r) = Inr (PDict d)"
  by (auto simp: ActorMetricsFormatter_format_def pop_default_def split: sum.splits pyval.splits)




subsection \<open>Evaluated examples\<close>

lemma attacker_record_eval:
  "literal_eval (getMessage attacker_record) =
   Inr (PDict [(PStr ''role'', PStr ''attacker''), (PStr ''actor_id'', PInt 7),
               (PStr ''reward'', PFloat 15 (- 1))])"
  by code_simp

lemma reward_record_eval:
  "literal_eval (getMessage (record_of (PDict [(PStr ''reward'', PFloat 25 (- 1))]))) =
   Inr (PDict [(PStr ''reward'', PFloat 25 (- 1))])"
  by code_simp

lemma py_str_seven: "py_str (PInt 7) = ''7''"
  by code_simp

lemma actor_init_cpu:
  "ActorMetricsFormatter_init cpu_probe =
      \<lparr> measurement = ''actor_metrics'',
        tags = [(''ip_port'', PStr ''host-1''), (''type'', PStr ''cpu'')],
        point_fields = None \<rparr>"
  by code_simp

lemma attacker_record_format:
  "ActorMetricsFormatter_format jb attacker_record =
     Inr (jb\<lparr>tags := dict_set (dict_set (tags jb) ''role'' (PStr ''attacker'')) ''actor_id'' (PStr ''7''),
            point_fields := Some (PDict [(PStr ''reward'', PFloat 15 (- 1))])\<rparr>)"
  by (simp add: ActorMetricsFormatter_format_def attacker_record_eval pop_default_def dict_del_def
      py_str_seven)

lemma loss_record_msg: "msg loss_record = PDict [(PStr ''loss'', PFloat 2 (- 1))]"
  by (simp add: loss_record_def record_of_def)

lemma prepared_loss_record:
  "is_dict (msg (prepare loss_record)) = False"
  "literal_eval (getMessage (prepare loss_record)) = Inr (PDict [(PStr ''loss'', PFloat 2 (- 1))])"
  by code_simp+

lemma strip_host1: "strip (hostname_stdout cpu_probe) = ''host-1''"
  "strip (hostname_stdout gpu_probe) = ''host-1''"
  "is_gpu cpu_probe = False" "is_gpu gpu_probe = True"
  by code_simp+

lemma loss_point_format:
  "Handler_format (fmt inner0) loss_record = Inr (loss_point, InfluxdbMonitorFormatter loss_point)"
  "keys_of_fields loss_point = Inr [PStr ''loss'']"
  by code_simp+

section \<open>Properties of the actor-metrics formatter\<close>

text \<open>
  Claim C3, as the code has it. Let the message of a record evaluate to the mapping \<open>d\<close>.
  Then the actor-metrics formatter returns a point; the fields of the point are \<open>d\<close>
  without the keys \<open>role\<close> and \<open>actor_id\<close>; if \<open>d\<close> has a \<open>role\<close> whose value is
  true (a non-empty string, say), the tags map \<open>role\<close> to that value; if the value of
  \<open>role\<close> is false (the empty string, zero, \<open>None\<close>, an empty container), the tag
  \<open>role\<close> is left as it was before the call; if \<open>d\<close> has an \<open>actor_id\<close> other than
  \<open>None\<close>, the tags map \<open>actor_id\<close> to its \<open>str()\<close>. For the record
  \<open>{"role": "attacker", "actor_id": 7, "reward": 1.5}\<close> the tags get \<open>role = "attacker"\<close>
  and \<open>actor_id = "7"\<close>, and the fields are \<open>{"reward": 1.5}\<close>.

  The claim as stated (every \<open>role\<close> entry becomes a tag) fails for the record
  \<open>{"role": "", "reward": 1.5}\<close>: the entry is popped from the fields, and the point has
  no \<open>role\<close> tag.
\<close>

theorem actor_format_promotes:
  assumes "literal_eval (getMessage r) = Inr (PDict d)"
  shows "(\<exists>jb'. ActorMetricsFormatter_format jb r = Inr jb'
      \<and> point_fields jb' = Some (PDict (dict_del (dict_del d (PStr ''role'')) (PStr ''actor_id'')))
      \<and> PStr ''role'' \<notin> set (field_keys jb') \<and> PStr ''actor_id'' \<notin> set (field_keys jb')
      \<and> (\<forall>v. dict_get d (PStr ''role'') = Some v \<and> truthy v = Inr True
             \<longrightarrow> dict_get (tags jb') ''role'' = Some v)
      \<and> (\<forall>v. dict_get d (PStr ''role'') = Some v \<and> truthy v = Inr False
             \<longrightarrow> dict_get (tags jb') ''role'' = dict_get (tags jb) ''role'')
      \<and> (\<forall>a. dict_get d (PStr ''actor_id'') = Some a \<and> a \<noteq> PNone
             \<longrightarrow> dict_get (tags jb') ''actor_id'' = Some (PStr (py_str a))))
    \<and> ActorMetricsFormatter_format jb attacker_record =
        Inr (jb\<lparr>tags := dict_set (dict_set (tags jb) ''role'' (PStr ''attacker''))
                           ''actor_id'' (PStr ''7''),
               point_fields := Some (PDict [(PStr ''reward'', PFloat 15 (- 1))])\<rparr>)"
proof -
  from actor_format_total [OF assms, of jb] obtain jb' where
    f: "ActorMetricsFormatter_format jb r = Inr jb'" ..
  note pf = actor_fields [OF assms f]
  have ka: "PStr ''role'' \<notin> set (field_keys jb')"
    by (simp add: field_keys_def pf dict_keys_dict_del)
  have kb: "PStr ''actor_id'' \<notin> set (field_keys jb')"
    by (simp add: field_keys_def pf dict_keys_dict_del)
  have r1: "\<forall>v. dict_get d (PStr ''role'') = Some v \<and> truthy v = Inr True
             \<longrightarrow> dict_get (tags jb') ''role'' = Some v"
    using actor_role_true [OF assms f] by simp
  have r2: "\<forall>v. dict_get d (PStr ''role'') = Some v \<and> truthy v = Inr False
             \<longrightarrow> dict_get (tags jb') ''role'' = dict_get (tags jb) ''role''"
    using actor_role_false [OF assms f] by simp
  have a1: "\<forall>a. dict_get d (PStr ''actor_id'') = Some a \<and> a \<noteq> PNone
             \<longrightarrow> dict_get (tags jb') ''actor_id'' = Some (PStr (py_str a))"
    using actor_id_set [OF assms f] by simp
  have "\<exists>jb'. ActorMetricsFormatter_format jb r = Inr jb'
      \<and> point_fields jb' = Some (PDict (dict_del (dict_del d (PStr ''role'')) (PStr ''actor_id'')))
      \<and> PStr ''role'' \<notin> set (field_keys jb') \<and> PStr ''actor_id'' \<notin> set (field_keys jb')
      \<and> (\<forall>v. dict_get d (PStr ''role'') = Some v \<and> truthy v = Inr True
             \<longrightarrow> dict_get (tags jb') ''role'' = Some v)
      \<and> (\<forall>v. dict_get d (PStr ''role'') = Some v \<and> truthy v = Inr False
             \<longrightarrow> dict_get (tags jb') ''role'' = dict_get (tags jb) ''role'')
      \<and> (\<forall>a. dict_get d (PStr ''actor_id'') = Some a \<and> a \<noteq> PNone
             \<longrightarrow> dict_get (tags jb') ''actor_id'' = Some (PStr (py_str a)))"
    by (rule exI [of _ jb']) (intro conjI f pf ka kb r1 r2 a1)
  then show ?thesis
    using attacker_record_format [of jb] by (rule conjI)
qed

theorem actor_format_promotes_witness:
  "literal_eval (getMessage attacker_record) =
     Inr (PDict [(PStr ''role'', PStr ''attacker''), (PStr ''actor_id'', PInt 7),
                 (PStr ''reward'', PFloat 15 (- 1))])
   \<and> ActorMetricsFormatter_format (ActorMetricsFormatter_init cpu_probe) attacker_record =
       Inr \<lparr> measurement = ''actor_metrics'',
             tags = [(''ip_port'', PStr ''host-1''), (''type'', PStr ''cpu''),
                     (''role'', PStr ''attacker''), (''actor_id'', PStr ''7'')],
             point_fields = Some (PDict [(PStr ''reward'', PFloat 15 (- 1))]) \<rparr>"
proof -
  from actor_format_promotes [OF attacker_record_eval, of "ActorMetricsFormatter_init cpu_probe"]
  have "ActorMetricsFormatter_format (ActorMetricsFormatter_init cpu_probe) attacker_record =
        Inr ((ActorMetricsFormatter_init cpu_probe)
              \<lparr>tags := dict_set (dict_set (tags (ActorMetricsFormatter_init cpu_probe)) ''role''
                           (PStr ''attacker'')) ''actor_id'' (PStr ''7''),
               point_fields := Some (PDict [(PStr ''reward'', PFloat 15 (- 1))])\<rparr>)"
    by (rule conjunct2)
  then show ?thesis
    by (simp add: attacker_record_eval actor_init_cpu)
qed

theorem actor_format_promotes_counterexample:
  "literal_eval (getMessage empty_role_record) =
     Inr (PDict [(PStr ''role'', PStr ''''), (PStr ''reward'', PFloat 15 (- 1))])
   \<and> ActorMetricsFormatter_format (ActorMetricsFormatter_init cpu_probe) empty_role_record =
       Inr \<lparr> measurement = ''actor_metrics'',
             tags = [(''ip_port'', PStr ''host-1''), (''type'', PStr ''cpu'')],
             point_fields = Some (PDict [(PStr ''reward'', PFloat 15 (- 1))]) \<rparr>"
  by code_simp

text \<open>
  Claim C10. Promoted tags persist across calls of the actor-metrics formatter. Of two
  successive calls, let the first record have a \<open>role\<close> whose value is true and the
  second record have no \<open>role\<close>: the point of the second call carries the first record's
  role. The same holds for an \<open>actor_id\<close> other than \<open>None\<close>. No call removes a tag.
\<close>

theorem actor_tags_persist:
  assumes "literal_eval (getMessage r1) = Inr (PDict d1)"
    and "literal_eval (getMessage r2) = Inr (PDict d2)"
  shows "\<exists>jb1 jb2. ActorMetricsFormatter_format jb r1 = Inr jb1
      \<and> ActorMetricsFormatter_format jb1 r2 = Inr jb2
      \<and> (\<forall>v. dict_get d1 (PStr ''role'') = Some v \<and> truthy v = Inr True
               \<and> dict_get d2 (PStr ''role'') = None
             \<longrightarrow> dict_get (tags jb2) ''role'' = Some v)
      \<and> (\<forall>a. dict_get d1 (PStr ''actor_id'') = Some a \<and> a \<noteq> PNone
               \<and> dict_get d2 (PStr ''actor_id'') = None
             \<longrightarrow> dict_get (tags jb2) ''actor_id'' = Some (PStr (py_str a)))
      \<and> set (dict_keys (tags jb)) \<subseteq> set (dict_keys (tags jb1))
      \<and> set (dict_keys (tags jb1)) \<subseteq> set (dict_keys (tags jb2))"
proof -
  from actor_format_total [OF assms(1), of jb] obtain jb1 where
    f1: "ActorMetricsFormatter_format jb r1 = Inr jb1" ..
  from actor_format_total [OF assms(2), of jb1] obtain jb2 where
    f2: "ActorMetricsFormatter_format jb1 r2 = Inr jb2" ..
  have r: "\<forall>v. dict_get d1 (PStr ''role'') = Some v \<and> truthy v = Inr True
               \<and> dict_get d2 (PStr ''role'') = None
             \<longrightarrow> dict_get (tags jb2) ''role'' = Some v"
    using actor_role_true [OF assms(1) f1] actor_role_absent [OF assms(2) f2] by simp
  have a: "\<forall>a. dict_get d1 (PStr ''actor_id'') = Some a \<and> a \<noteq> PNone
               \<and> dict_get d2 (PStr ''actor_id'') = None
             \<longrightarrow> dict_get (tags jb2) ''actor_id'' = Some (PStr (py_str a))"
    using actor_id_set [OF assms(1) f1] actor_id_absent [OF assms(2) f2] by simp
  note k1 = actor_keys_grow [OF assms(1) f1]
  note k2 = actor_keys_grow [OF assms(2) f2]
  show ?thesis
    by (rule exI [of _ jb1], rule exI [of _ jb2]) (intro conjI f1 f2 r a k1 k2)
qed

theorem actor_tags_persist_witness:
  "\<exists>jb1 jb2.
     ActorMetricsFormatter_format (ActorMetricsFormatter_init cpu_probe) attacker_record = Inr jb1
     \<and> ActorMetricsFormatter_format jb1 (record_of (PDict [(PStr ''reward'', PFloat 25 (- 1))])) = Inr jb2
     \<and> dict_get (tags jb2) ''role'' = Some (PStr ''attacker'')
     \<and> dict_get (tags jb2) ''actor_id'' = Some (PStr ''7'')"
proof -
  from actor_tags_persist [OF attacker_record_eval reward_record_eval,
      of "ActorMetricsFormatter_init cpu_probe"]
  obtain jb1 jb2 where
    f1: "ActorMetricsFormatter_format (ActorMetricsFormatter_init cpu_probe) attacker_record = Inr jb1"
    and f2: "ActorMetricsFormatter_format jb1 (record_of (PDict [(PStr ''reward'', PFloat 25 (- 1))])) = Inr jb2"
    and r: "\<forall>v. dict_get [(PStr ''role'', PStr ''attacker''), (PStr ''actor_id'', PInt 7),
                 (PStr ''reward'', PFloat 15 (- 1))] (PStr ''role'') = Some v \<and> truthy v = Inr True
               \<and> dict_get [(PStr ''reward'', PFloat 25 (- 1))] (PStr ''role'') = None
             \<longrightarrow> dict_get (tags jb2) ''role'' = Some v"
    and a: "\<forall>a. dict_get [(PStr ''role'', PStr ''attacker''), (PStr ''actor_id'', PInt 7),
                 (PStr ''reward'', PFloat 15 (- 1))] (PStr ''actor_id'') = Some a \<and> a \<noteq> PNone
               \<and> dict_get [(PStr ''reward'', PFloat 25 (- 1))] (PStr ''actor_id'') = None
             \<longrightarrow> dict_get (tags jb2) ''actor_id'' = Some (PStr (py_str a))"
    by (elim exE conjE)
  from r have r': "dict_get (tags jb2) ''role'' = Some (PStr ''attacker'')" by simp
  from a have a': "dict_get (tags jb2) ''actor_id'' = Some (PStr ''7'')" by (simp add: py_str_seven)
  show ?thesis
    by (rule exI [of _ jb1], rule exI [of _ jb2]) (intro conjI f1 f2 r' a')
qed

section \<open>Properties of the general formatter\<close>

text \<open>
  Claim C9. On a host whose name is \<open>host-1\<close>, with or without a GPU, the general formatter
  turns the record \<open>{"loss": 0.2}\<close> into the point with measurement \<open>cpu_ip_info\<close> or
  \<open>gpu_ip_info\<close>, tags \<open>ip_port = "host-1"\<close> and \<open>type = "cpu"\<close> or \<open>"gpu"\<close>, and fields
  \<open>{"loss": 0.2}\<close>. Measurement and tags are those set by the constructor: the point is
  the same after any number of earlier calls, and the same for the record as the queue
  handler hands it on (its message replaced by its text).
\<close>

theorem general_format_loss_record:
  assumes "strip (hostname_stdout p) = ''host-1''"
  shows "InfluxdbMonitorFormatter_format
           (after_records InfluxdbMonitorFormatter_format (InfluxdbMonitorFormatter_init p) rs)
           loss_record
         = Inr \<lparr> measurement = (if is_gpu p then ''gpu'' else ''cpu'') @ ''_ip_info'',
                 tags = [(''ip_port'', PStr ''host-1''),
                         (''type'', PStr (if is_gpu p then ''gpu'' else ''cpu''))],
                 point_fields = Some (PDict [(PStr ''loss'', PFloat 2 (- 1))]) \<rparr>
     \<and> InfluxdbMonitorFormatter_format
           (after_records InfluxdbMonitorFormatter_format (InfluxdbMonitorFormatter_init p) rs)
           (prepare loss_record)
         = Inr \<lparr> measurement = (if is_gpu p then ''gpu'' else ''cpu'') @ ''_ip_info'',
                 tags = [(''ip_port'', PStr ''host-1''),
                         (''type'', PStr (if is_gpu p then ''gpu'' else ''cpu''))],
                 point_fields = Some (PDict [(PStr ''loss'', PFloat 2 (- 1))]) \<rparr>"
proof -
  let ?jb = "after_records InfluxdbMonitorFormatter_format (InfluxdbMonitorFormatter_init p) rs"
  have m: "measurement ?jb = (if is_gpu p then ''gpu'' else ''cpu'') @ ''_ip_info''"
    using general_after_records [of "InfluxdbMonitorFormatter_init p" rs]
    by (simp add: InfluxdbMonitorFormatter_init_def Let_def)
  have t: "tags ?jb = [(''ip_port'', PStr ''host-1''),
                       (''type'', PStr (if is_gpu p then ''gpu'' else ''cpu''))]"
    using general_after_records [of "InfluxdbMonitorFormatter_init p" rs] assms
    by (simp add: InfluxdbMonitorFormatter_init_def Let_def)
  have a: "InfluxdbMonitorFormatter_format ?jb loss_record
      = Inr (?jb\<lparr>point_fields := Some (PDict [(PStr ''loss'', PFloat 2 (- 1))])\<rparr>)"
    using general_format_dict [OF loss_record_msg, of ?jb] by simp
  have b: "InfluxdbMonitorFormatter_format ?jb (prepare loss_record)
      = Inr (?jb\<lparr>point_fields := Some (PDict [(PStr ''loss'', PFloat 2 (- 1))])\<rparr>)"
    by (simp add: InfluxdbMonitorFormatter_format_def prepared_loss_record)
  from a b show ?thesis
    by (simp only: json_body_fields_update m t simp_thms)
qed

theorem general_format_loss_record_witness:
  "strip (hostname_stdout cpu_probe) = ''host-1'' \<and> strip (hostname_stdout gpu_probe) = ''host-1''
   \<and> InfluxdbMonitorFormatter_format (InfluxdbMonitorFormatter_init cpu_probe) loss_record
       = Inr \<lparr> measurement = ''cpu_ip_info'',
               tags = [(''ip_port'', PStr ''host-1''), (''type'', PStr ''cpu'')],
               point_fields = Some (PDict [(PStr ''loss'', PFloat 2 (- 1))]) \<rparr>
   \<and> InfluxdbMonitorFormatter_format
         (after_records InfluxdbMonitorFormatter_format (InfluxdbMonitorFormatter_init gpu_probe)
            [type_record, attacker_record])
         loss_record
       = Inr \<lparr> measurement = ''gpu_ip_info'',
               tags = [(''ip_port'', PStr ''host-1''), (''type'', PStr ''gpu'')],
               point_fields = Some (PDict [(PStr ''loss'', PFloat 2 (- 1))]) \<rparr>"
  using general_format_loss_record [OF strip_host1(1), of "[]"]
    general_format_loss_record [OF strip_host1(2), of "[type_record, attacker_record]"]
  by (simp add: strip_host1)




section \<open>Tag keys and field keys\<close>




section \<open>Properties of the sink writer\<close>

subsection \<open>A second call on the same record\<close>

lemma general_format_idem:
  "InfluxdbMonitorFormatter_format jb r = Inr jb' \<Longrightarrow> InfluxdbMonitorFormatter_format jb' r = Inr jb'"
  by (auto simp: InfluxdbMonitorFormatter_format_def split: sum.splits if_splits)

lemma dict_set_twice:
  "k \<noteq> k' \<Longrightarrow> dict_set (dict_set (dict_set (dict_set t k v) k' v') k v) k' v'
     = dict_set (dict_set t k v) k' v'"
  by (simp add: dict_set_same dict_get_dict_set)

lemma dict_set_again: "dict_set (dict_set t k v) k v = dict_set t k v"
  by (simp add: dict_set_same dict_get_dict_set)

lemma actor_format_idem:
  assumes f: "ActorMetricsFormatter_format jb r = Inr jb'"
  shows "ActorMetricsFormatter_format jb' r = Inr jb'"
proof -
  from actor_format_Inr [OF f] obtain d where e: "literal_eval (getMessage r) = Inr (PDict d)" ..
  from actor_format_eval [OF e, of jb] f obtain b where
    b: "truthy (case dict_get d (PStr ''role'') of None \<Rightarrow> PNone | Some v \<Rightarrow> v) = Inr b"
    and jb': "jb' = jb\<lparr>tags :=
                 (let role = (case dict_get d (PStr ''role'') of None \<Rightarrow> PNone | Some v \<Rightarrow> v);
                      actor_id = (case dict_get d (PStr ''actor_id'') of None \<Rightarrow> PNone | Some v \<Rightarrow> v);
                      t1 = (if b then dict_set (tags jb) ''role'' role else tags jb)
                  in if actor_id \<noteq> PNone then dict_set t1 ''actor_id'' (PStr (py_str actor_id)) else t1),
               point_fields := Some (PDict (dict_del (dict_del d (PStr ''role'')) (PStr ''actor_id'')))\<rparr>"
    by auto
  from actor_format_eval [OF e, of jb'] b have
    "ActorMetricsFormatter_format jb' r = Inr (jb'\<lparr>tags :=
                 (let role = (case dict_get d (PStr ''role'') of None \<Rightarrow> PNone | Some v \<Rightarrow> v);
                      actor_id = (case dict_get d (PStr ''actor_id'') of None \<Rightarrow> PNone | Some v \<Rightarrow> v);
                      t1 = (if b then dict_set (tags jb') ''role'' role else tags jb')
                  in if actor_id \<noteq> PNone then dict_set t1 ''actor_id'' (PStr (py_str actor_id)) else t1),
               point_fields := Some (PDict (dict_del (dict_del d (PStr ''role'')) (PStr ''actor_id'')))\<rparr>)"
    by auto
  also have "\<dots> = Inr jb'"
    by (simp add: jb' Let_def dict_set_twice dict_set_again)
  finally show ?thesis .
qed

lemma Handler_format_idem:
  "Handler_format f r = Inr (m, f') \<Longrightarrow> Handler_format f' r = Inr (m, f')"
  by (cases f)
    (auto simp: Handler_format_def split: sum.splits dest: general_format_idem actor_format_idem)

lemma write_attempts_append [simp]: "write_attempts (xs @ ys) = write_attempts xs + write_attempts ys"
  by (simp add: write_attempts_def)

lemma emit_try_trace:
  "emit_try sink h r = Inr h' \<Longrightarrow> \<exists>evs. trace h' = trace h @ evs \<and> write_attempts evs \<le> 1"
  "emit_try sink h r = Inl (e, h') \<Longrightarrow> \<exists>evs. trace h' = trace h @ evs \<and> write_attempts evs \<le> 1"
  by (auto simp: emit_try_def Let_def write_attempts_def split: sum.splits option.splits prod.splits)

lemma emit_except_trace:
  "\<exists>evs. trace (emit_except e h) = trace h @ evs \<and> write_attempts evs = 0"
  by (simp add: emit_except_def write_attempts_def)

lemma emit_loop_trace:
  "\<exists>evs. trace (emit_loop sink n h r) = trace h @ evs \<and> write_attempts evs \<le> n"
proof (induction n arbitrary: h)
  case 0
  then show ?case by (simp add: write_attempts_def)
next
  case (Suc n)
  show ?case
  proof (cases "emit_try sink h r")
    case (Inr h')
    from emit_try_trace(1) [OF Inr] obtain evs where
      "trace h' = trace h @ evs" "write_attempts evs \<le> 1" by blast
    with Inr show ?thesis by auto
  next
    case (Inl p)
    obtain e h' where p: "p = (e, h')" by (cases p)
    from emit_try_trace(2) [OF Inl [unfolded p]] obtain evs1 where
      1: "trace h' = trace h @ evs1" "write_attempts evs1 \<le> 1" by blast
    from emit_except_trace [of e h'] obtain evs2 where
      2: "trace (emit_except e h') = trace h' @ evs2" "write_attempts evs2 = 0" by blast
    from Suc [of "emit_except e h'"] obtain evs3 where
      3: "trace (emit_loop sink n (emit_except e h') r) = trace (emit_except e h') @ evs3"
         "write_attempts evs3 \<le> n" by blast
    have "trace (emit_loop sink (Suc n) h r) = trace h @ (evs1 @ evs2 @ evs3)"
      using Inl p 1 2 3 by simp
    moreover have "write_attempts (evs1 @ evs2 @ evs3) \<le> Suc n"
      using 1 2 3 by simp
    ultimately show ?thesis by blast
  qed
qed

lemma emit_try_failing:
  assumes "Handler_format (fmt h) r = Inr (m, f')" and "keys_of_fields m = Inr ks"
    and "sink (client h) m = Some e"
  shows "emit_try sink h r =
     Inl (e, h\<lparr>fmt := f',
               trace := trace h @ [Print_emit (measurement m) (tags m) ks,
                                   Write_points (client h) m]\<rparr>)"
  using assms by (simp add: emit_try_def Let_def)

text \<open>
  Claim C1, as the code has it. \<open>emit\<close> returns \<open>None\<close> and raises nothing, whatever the
  sink does, and calls \<open>write_points\<close> at most twice for a record. When the sink refuses
  every write (and the record can be formatted), it makes exactly two attempts: it writes
  on the current client, prints the error, closes the client and creates a new one, writes
  again on the new client, prints the second error, and closes and recreates the client
  once more; each failure's cause is printed, none is returned. The record is not put back:
  the listener's turn leaves the rest of the queue.

  The claim as stated (the writer returns a \<open>WriteError\<close> with the last cause) fails: for a
  sink that refuses every write the method returns \<open>None\<close>.
\<close>

theorem emit_bounded_retry:
  "(\<exists>h' evs. InfluxdbMonitorHandlerInner_emit sink h r = Inr (PNone, h')
       \<and> trace h' = trace h @ evs \<and> write_attempts evs \<le> 2)
   \<and> ((\<forall>c p. sink c p \<noteq> None) \<and> Handler_format (fmt h) r = Inr (m, f')
        \<and> keys_of_fields m = Inr ks \<longrightarrow>
       (\<exists>e1 e2. sink (client h) m = Some e1 \<and> sink (Suc (client h)) m = Some e2
          \<and> InfluxdbMonitorHandlerInner_emit sink h r =
              Inr (PNone,
                   h\<lparr>fmt := f', client := Suc (Suc (client h)),
                     trace := trace h @
                       [Print_emit (measurement m) (tags m) ks, Write_points (client h) m,
                        Print_error e1, Close (client h), Create (Suc (client h)),
                        Print_emit (measurement m) (tags m) ks, Write_points (Suc (client h)) m,
                        Print_error e2, Close (Suc (client h)), Create (Suc (Suc (client h)))]\<rparr>)))
   \<and> (queue mh = r # q \<longrightarrow>
       (\<exists>h'. listener_step sink mh = Inr (mh\<lparr>queue := q, inner := h'\<rparr>)))"
proof (intro conjI impI)
  from emit_loop_trace [of sink 2 h r] obtain evs where
    "trace (emit_loop sink 2 h r) = trace h @ evs" "write_attempts evs \<le> 2" by blast
  then show "\<exists>h' evs. InfluxdbMonitorHandlerInner_emit sink h r = Inr (PNone, h')
       \<and> trace h' = trace h @ evs \<and> write_attempts evs \<le> 2"
    by (auto simp: InfluxdbMonitorHandlerInner_emit_def)
next
  assume a: "(\<forall>c p. sink c p \<noteq> None) \<and> Handler_format (fmt h) r = Inr (m, f')
        \<and> keys_of_fields m = Inr ks"
  then obtain e1 e2 where e1: "sink (client h) m = Some e1" and e2: "sink (Suc (client h)) m = Some e2"
    by (metis not_None_eq)
  from a have f: "Handler_format (fmt h) r = Inr (m, f')" and k: "keys_of_fields m = Inr ks"
    by simp_all
  note f2 = Handler_format_idem [OF f]
  let ?h1 = "emit_except e1 (h\<lparr>fmt := f',
               trace := trace h @ [Print_emit (measurement m) (tags m) ks,
                                   Write_points (client h) m]\<rparr>)"
  have t1: "emit_try sink h r =
     Inl (e1, h\<lparr>fmt := f',
               trace := trace h @ [Print_emit (measurement m) (tags m) ks,
                                   Write_points (client h) m]\<rparr>)"
    by (rule emit_try_failing [where sink = sink and h = h, OF f k e1])
  have t2: "emit_try sink ?h1 r =
     Inl (e2, ?h1\<lparr>fmt := f',
               trace := trace ?h1 @ [Print_emit (measurement m) (tags m) ks,
                                     Write_points (client ?h1) m]\<rparr>)"
    by (rule emit_try_failing [where sink = sink and h = ?h1, OF _ k])
      (simp_all add: emit_except_def e2 f2)
  have "InfluxdbMonitorHandlerInner_emit sink h r =
              Inr (PNone,
                   h\<lparr>fmt := f', client := Suc (Suc (client h)),
                     trace := trace h @
                       [Print_emit (measurement m) (tags m) ks, Write_points (client h) m,
                        Print_error e1, Close (client h), Create (Suc (client h)),
                        Print_emit (measurement m) (tags m) ks, Write_points (Suc (client h)) m,
                        Print_error e2, Close (Suc (client h)), Create (Suc (Suc (client h)))]\<rparr>)"
    by (simp add: InfluxdbMonitorHandlerInner_emit_def numeral_2_eq_2 t1 t2)
      (simp add: emit_except_def)
  with e1 e2 show "\<exists>e1 e2. sink (client h) m = Some e1 \<and> sink (Suc (client h)) m = Some e2
          \<and> InfluxdbMonitorHandlerInner_emit sink h r =
              Inr (PNone,
                   h\<lparr>fmt := f', client := Suc (Suc (client h)),
                     trace := trace h @
                       [Print_emit (measurement m) (tags m) ks, Write_points (client h) m,
                        Print_error e1, Close (client h), Create (Suc (client h)),
                        Print_emit (measurement m) (tags m) ks, Write_points (Suc (client h)) m,
                        Print_error e2, Close (Suc (client h)), Create (Suc (Suc (client h)))]\<rparr>)"
    by blast
next
  assume "queue mh = r # q"
  then show "\<exists>h'. listener_step sink mh = Inr (mh\<lparr>queue := q, inner := h'\<rparr>)"
    by (simp add: listener_step_def InfluxdbMonitorHandlerInner_emit_def) blast
qed

theorem emit_bounded_retry_witness:
  "(\<forall>c p. down_sink c p \<noteq> None)
   \<and> Handler_format (fmt inner0) loss_record = Inr (loss_point, InfluxdbMonitorFormatter loss_point)
   \<and> keys_of_fields loss_point = Inr [PStr ''loss'']
   \<and> (\<exists>e1 e2. down_sink (client inner0) loss_point = Some e1
          \<and> down_sink (Suc (client inner0)) loss_point = Some e2
          \<and> InfluxdbMonitorHandlerInner_emit down_sink inner0 loss_record =
              Inr (PNone,
                   inner0\<lparr>fmt := InfluxdbMonitorFormatter loss_point,
                     client := Suc (Suc (client inner0)),
                     trace := trace inner0 @
                       [Print_emit (measurement loss_point) (tags loss_point) [PStr ''loss''],
                        Write_points (client inner0) loss_point,
                        Print_error e1, Close (client inner0), Create (Suc (client inner0)),
                        Print_emit (measurement loss_point) (tags loss_point) [PStr ''loss''],
                        Write_points (Suc (client inner0)) loss_point,
                        Print_error e2, Close (Suc (client inner0)),
                        Create (Suc (Suc (client inner0)))]\<rparr>))
   \<and> queue pipeline_full = [prepare loss_record]
   \<and> (\<exists>h'. listener_step down_sink pipeline_full = Inr (pipeline_full\<lparr>queue := [], inner := h'\<rparr>))"
proof -
  have d: "\<forall>c p. down_sink c p \<noteq> None" by (simp add: down_sink_def)
  have q: "queue pipeline_full = [prepare loss_record]" by (simp add: pipeline_full_def)
  note f = loss_point_format(1) and k = loss_point_format(2)
  note t = emit_bounded_retry [of down_sink inner0 loss_record loss_point
      "InfluxdbMonitorFormatter loss_point" "[PStr ''loss'']" pipeline_full "[]",
      THEN conjunct2, THEN conjunct1, THEN mp, OF conjI [OF d conjI [OF f k]]]
  note u = emit_bounded_retry [of down_sink "inner pipeline_full" "prepare loss_record"
      loss_point "InfluxdbMonitorFormatter loss_point" "[PStr ''loss'']" pipeline_full "[]",
      THEN conjunct2, THEN conjunct2, THEN mp, OF q]
  from d f k t q u show ?thesis by (intro conjI)
qed

theorem emit_bounded_retry_counterexample:
  "InfluxdbMonitorHandlerInner_emit down_sink inner0 loss_record =
     Inr (PNone,
          \<lparr> ip = ''localhost'', port = ''8086'', database = ''monitordb'', client = 2,
            fmt = InfluxdbMonitorFormatter
                    \<lparr> measurement = ''cpu_ip_info'',
                      tags = [(''ip_port'', PStr ''host-1''), (''type'', PStr ''cpu'')],
                      point_fields = Some (PDict [(PStr ''loss'', PFloat 2 (- 1))]) \<rparr>,
            trace =
              [Print_emit ''cpu_ip_info'' [(''ip_port'', PStr ''host-1''), (''type'', PStr ''cpu'')]
                 [PStr ''loss''],
               Write_points 0
                 \<lparr> measurement = ''cpu_ip_info'',
                   tags = [(''ip_port'', PStr ''host-1''), (''type'', PStr ''cpu'')],
                   point_fields = Some (PDict [(PStr ''loss'', PFloat 2 (- 1))]) \<rparr>,
               Print_error (SinkError ''connection refused''), Close 0, Create 1,
               Print_emit ''cpu_ip_info'' [(''ip_port'', PStr ''host-1''), (''type'', PStr ''cpu'')]
                 [PStr ''loss''],
               Write_points 1
                 \<lparr> measurement = ''cpu_ip_info'',
                   tags = [(''ip_port'', PStr ''host-1''), (''type'', PStr ''cpu'')],
                   point_fields = Some (PDict [(PStr ''loss'', PFloat 2 (- 1))]) \<rparr>,
               Print_error (SinkError ''connection refused''), Close 1, Create 2] \<rparr>)"
  by code_simp

end
